theory Spec2Isabelle
  imports Complex_Main
begin

section \<open>JavaScript numbers\<close>

text \<open>
  A JavaScript number is modelled by \<open>jsnum\<close>: a finite value carries a real number, and the
  three special values of IEEE arithmetic stand beside it. Arithmetic on finite values is
  exact (rounding, overflow and the sign of zero are not modelled); arithmetic that meets a
  special value follows the IEEE rules (\<open>0 * Infinity = NaN\<close>, \<open>x / 0 = \<plusminus>Infinity\<close>,
  \<open>0 / 0 = NaN\<close>, \<open>Infinity - Infinity = NaN\<close>, NaN absorbs).
  What depends on the rounding error of a double is therefore not expressed here: how far
  \<open>pixelUnprojectionMatrix \<times> pixelProjectionMatrix\<close> is from the identity, or how far
  \<open>unproject(project(p))\<close> is from \<open>p\<close> on a ray that meets the target plane.
\<close>

datatype jsnum = Fin real | PInf | NInf | NaN

instantiation jsnum :: "{plus, minus, uminus, times, inverse}"
begin

fun uminus_jsnum :: "jsnum \<Rightarrow> jsnum" where
  "uminus_jsnum (Fin a) = Fin (- a)"
| "uminus_jsnum PInf = NInf"
| "uminus_jsnum NInf = PInf"
| "uminus_jsnum NaN = NaN"

fun plus_jsnum :: "jsnum \<Rightarrow> jsnum \<Rightarrow> jsnum" where
  "plus_jsnum (Fin a) (Fin b) = Fin (a + b)"
| "plus_jsnum NaN _ = NaN"
| "plus_jsnum _ NaN = NaN"
| "plus_jsnum PInf NInf = NaN"
| "plus_jsnum NInf PInf = NaN"
| "plus_jsnum PInf _ = PInf"
| "plus_jsnum _ PInf = PInf"
| "plus_jsnum NInf _ = NInf"
| "plus_jsnum _ NInf = NInf"

definition minus_jsnum :: "jsnum \<Rightarrow> jsnum \<Rightarrow> jsnum" where
  "minus_jsnum a b = a + (- b)"

fun times_jsnum :: "jsnum \<Rightarrow> jsnum \<Rightarrow> jsnum" where
  "times_jsnum (Fin a) (Fin b) = Fin (a * b)"
| "times_jsnum NaN _ = NaN"
| "times_jsnum _ NaN = NaN"
| "times_jsnum PInf (Fin b) = (if b = 0 then NaN else if 0 < b then PInf else NInf)"
| "times_jsnum NInf (Fin b) = (if b = 0 then NaN else if 0 < b then NInf else PInf)"
| "times_jsnum (Fin a) PInf = (if a = 0 then NaN else if 0 < a then PInf else NInf)"
| "times_jsnum (Fin a) NInf = (if a = 0 then NaN else if 0 < a then NInf else PInf)"
| "times_jsnum PInf PInf = PInf"
| "times_jsnum PInf NInf = NInf"
| "times_jsnum NInf PInf = NInf"
| "times_jsnum NInf NInf = PInf"

fun divide_jsnum :: "jsnum \<Rightarrow> jsnum \<Rightarrow> jsnum" where
  "divide_jsnum (Fin a) (Fin b) =
     (if b = 0 then (if a = 0 then NaN else if 0 < a then PInf else NInf) else Fin (a / b))"
| "divide_jsnum NaN _ = NaN"
| "divide_jsnum _ NaN = NaN"
| "divide_jsnum (Fin a) PInf = Fin 0"
| "divide_jsnum (Fin a) NInf = Fin 0"
| "divide_jsnum PInf (Fin b) = (if 0 \<le> b then PInf else NInf)"
| "divide_jsnum NInf (Fin b) = (if 0 \<le> b then NInf else PInf)"
| "divide_jsnum _ _ = NaN"

definition inverse_jsnum :: "jsnum \<Rightarrow> jsnum" where
  "inverse_jsnum a = divide (Fin 1) a"

instance ..

end

text \<open>\<open>Number.isFinite\<close>, on a value that may be \<open>undefined\<close> or \<open>null\<close> (\<open>None\<close>).\<close>

fun is_fin :: "jsnum \<Rightarrow> bool" where
  "is_fin (Fin a) = True"
| "is_fin _ = False"

fun Number_isFinite :: "jsnum option \<Rightarrow> bool" where
  "Number_isFinite None = False"
| "Number_isFinite (Some a) = is_fin a"

text \<open>Truthiness of a number: \<open>0\<close> and \<open>NaN\<close> are falsy.\<close>

fun falsy :: "jsnum \<Rightarrow> bool" where
  "falsy (Fin a) = (a = 0)"
| "falsy NaN = True"
| "falsy _ = False"

text \<open>Strict equality \<open>===\<close> on numbers: \<open>NaN\<close> equals nothing, itself included.\<close>

fun strict_eq :: "jsnum \<Rightarrow> jsnum \<Rightarrow> bool" where
  "strict_eq NaN _ = False"
| "strict_eq _ NaN = False"
| "strict_eq a b = (a = b)"

text \<open>\<open>x || d\<close> on an optional number: an absent or falsy \<open>x\<close> gives \<open>d\<close>.\<close>

fun or_default :: "jsnum option \<Rightarrow> jsnum \<Rightarrow> jsnum" where
  "or_default None d = d"
| "or_default (Some a) d = (if falsy a then d else a)"

text \<open>A missing array element read in arithmetic: \<open>undefined\<close> coerces to \<open>NaN\<close>.\<close>

fun to_number :: "jsnum option \<Rightarrow> jsnum" where
  "to_number None = NaN"
| "to_number (Some a) = a"

text \<open>\<open>Math.pow(2, z)\<close>, \<open>Math.tan\<close> and \<open>Math.PI\<close>.\<close>

fun Math_pow2 :: "jsnum \<Rightarrow> jsnum" where
  "Math_pow2 (Fin z) = Fin (2 powr z)"
| "Math_pow2 PInf = PInf"
| "Math_pow2 NInf = Fin 0"
| "Math_pow2 NaN = NaN"

fun Math_tan :: "jsnum \<Rightarrow> jsnum" where
  "Math_tan (Fin a) = (if cos a = 0 then PInf else Fin (sin a / cos a))"
| "Math_tan _ = NaN"

definition Math_PI :: jsnum where
  "Math_PI = Fin pi"

section \<open>Matrices and vectors\<close>

text \<open>
  The class imports its matrix and vector operations: \<open>createMat4\<close> and \<open>transformVector\<close>
  from the math utilities of the repository, the others from the packages gl-mat4 and
  gl-vec2. None of them is under src/; each is modelled below from what the spec says of
  it, as the standard operation on 4x4 homogeneous matrices that it names.

  A 4x4 matrix is a 16-element array in column-major order: the constructor's arguments
  are \<open>m[0] .. m[15]\<close>, and \<open>aCR\<close> names the entry in column \<open>C\<close> and row \<open>R\<close>.
\<close>

datatype mat4 = Mat4
  jsnum jsnum jsnum jsnum
  jsnum jsnum jsnum jsnum
  jsnum jsnum jsnum jsnum
  jsnum jsnum jsnum jsnum

type_synonym vec3 = "jsnum \<times> jsnum \<times> jsnum"
type_synonym vec4 = "jsnum \<times> jsnum \<times> jsnum \<times> jsnum"

text \<open>
  Modelled from the spec: \<open>createMat4()\<close> of the math utilities, a fresh identity matrix
  (the default view matrix, and the start of every matrix that is built up).
\<close>

definition createMat4 :: mat4 where
  "createMat4 = Mat4
     (Fin 1) (Fin 0) (Fin 0) (Fin 0)
     (Fin 0) (Fin 1) (Fin 0) (Fin 0)
     (Fin 0) (Fin 0) (Fin 1) (Fin 0)
     (Fin 0) (Fin 0) (Fin 0) (Fin 1)"

definition IDENTITY :: mat4 where
  "IDENTITY = createMat4"

text \<open>
  Modelled from the spec: \<open>mat4_multiply(out, a, b)\<close>, the matrix product \<open>a \<times> b\<close>
  ("\<open>viewProjectionMatrix = projectionMatrix \<times> viewMatrix\<close>", "each step right-multiplies the
  accumulator").
\<close>

definition mat4_multiply :: "mat4 \<Rightarrow> mat4 \<Rightarrow> mat4" where
  "mat4_multiply a b =
   (case a of Mat4 a00 a01 a02 a03 a10 a11 a12 a13 a20 a21 a22 a23 a30 a31 a32 a33 \<Rightarrow>
    case b of Mat4 b00 b01 b02 b03 b10 b11 b12 b13 b20 b21 b22 b23 b30 b31 b32 b33 \<Rightarrow>
   Mat4
     (b00 * a00 + b01 * a10 + b02 * a20 + b03 * a30)
     (b00 * a01 + b01 * a11 + b02 * a21 + b03 * a31)
     (b00 * a02 + b01 * a12 + b02 * a22 + b03 * a32)
     (b00 * a03 + b01 * a13 + b02 * a23 + b03 * a33)
     (b10 * a00 + b11 * a10 + b12 * a20 + b13 * a30)
     (b10 * a01 + b11 * a11 + b12 * a21 + b13 * a31)
     (b10 * a02 + b11 * a12 + b12 * a22 + b13 * a32)
     (b10 * a03 + b11 * a13 + b12 * a23 + b13 * a33)
     (b20 * a00 + b21 * a10 + b22 * a20 + b23 * a30)
     (b20 * a01 + b21 * a11 + b22 * a21 + b23 * a31)
     (b20 * a02 + b21 * a12 + b22 * a22 + b23 * a32)
     (b20 * a03 + b21 * a13 + b22 * a23 + b23 * a33)
     (b30 * a00 + b31 * a10 + b32 * a20 + b33 * a30)
     (b30 * a01 + b31 * a11 + b32 * a21 + b33 * a31)
     (b30 * a02 + b31 * a12 + b32 * a22 + b33 * a32)
     (b30 * a03 + b31 * a13 + b32 * a23 + b33 * a33))"

text \<open>
  Modelled from the spec: \<open>mat4_scale(out, a, v)\<close>, which right-multiplies \<open>a\<close> by the scaling
  by \<open>v\<close>: the first three columns of \<open>a\<close> are scaled.
\<close>

definition mat4_scale :: "mat4 \<Rightarrow> vec3 \<Rightarrow> mat4" where
  "mat4_scale a v =
   (case a of Mat4 a00 a01 a02 a03 a10 a11 a12 a13 a20 a21 a22 a23 a30 a31 a32 a33 \<Rightarrow>
    case v of (x, y, z) \<Rightarrow>
   Mat4
     (a00 * x) (a01 * x) (a02 * x) (a03 * x)
     (a10 * y) (a11 * y) (a12 * y) (a13 * y)
     (a20 * z) (a21 * z) (a22 * z) (a23 * z)
     a30 a31 a32 a33)"

text \<open>
  Modelled from the spec: \<open>mat4_translate(out, a, v)\<close>, which right-multiplies \<open>a\<close> by the
  translation by \<open>v\<close>: the last column of \<open>a\<close> is replaced.
\<close>

definition mat4_translate :: "mat4 \<Rightarrow> vec3 \<Rightarrow> mat4" where
  "mat4_translate a v =
   (case a of Mat4 a00 a01 a02 a03 a10 a11 a12 a13 a20 a21 a22 a23 a30 a31 a32 a33 \<Rightarrow>
    case v of (x, y, z) \<Rightarrow>
   Mat4
     a00 a01 a02 a03
     a10 a11 a12 a13
     a20 a21 a22 a23
     (a00 * x + a10 * y + a20 * z + a30)
     (a01 * x + a11 * y + a21 * z + a31)
     (a02 * x + a12 * y + a22 * z + a32)
     (a03 * x + a13 * y + a23 * z + a33))"

text \<open>
  Modelled from the spec: \<open>mat4_invert(out, a)\<close>, the matrix inverse. The spec has "inverse
  of \<open>pixelProjectionMatrix\<close>; if not invertible, set to undefined/absent": the inverse is
  computed by the cofactor expansion (the twelve 2x2 minors \<open>b00 .. b11\<close>, the determinant
  from them, the adjugate times the reciprocal of the determinant), and a falsy determinant
  (zero or \<open>NaN\<close>) gives \<open>null\<close>.
\<close>

definition mat4_invert :: "mat4 \<Rightarrow> mat4 option" where
  "mat4_invert a =
    (case a of Mat4 a00 a01 a02 a03 a10 a11 a12 a13 a20 a21 a22 a23 a30 a31 a32 a33 \<Rightarrow>
     let b00 = a00 * a11 - a01 * a10;
         b01 = a00 * a12 - a02 * a10;
         b02 = a00 * a13 - a03 * a10;
         b03 = a01 * a12 - a02 * a11;
         b04 = a01 * a13 - a03 * a11;
         b05 = a02 * a13 - a03 * a12;
         b06 = a20 * a31 - a21 * a30;
         b07 = a20 * a32 - a22 * a30;
         b08 = a20 * a33 - a23 * a30;
         b09 = a21 * a32 - a22 * a31;
         b10 = a21 * a33 - a23 * a31;
         b11 = a22 * a33 - a23 * a32;
         det = b00 * b11 - b01 * b10 + b02 * b09 + b03 * b08 - b04 * b07 + b05 * b06
     in if falsy det then None
        else
          (let det = Fin 1 / det in
           Some (Mat4
             ((a11 * b11 - a12 * b10 + a13 * b09) * det)
             ((a02 * b10 - a01 * b11 - a03 * b09) * det)
             ((a31 * b05 - a32 * b04 + a33 * b03) * det)
             ((a22 * b04 - a21 * b05 - a23 * b03) * det)
             ((a12 * b08 - a10 * b11 - a13 * b07) * det)
             ((a00 * b11 - a02 * b08 + a03 * b07) * det)
             ((a32 * b02 - a30 * b05 - a33 * b01) * det)
             ((a20 * b05 - a22 * b02 + a23 * b01) * det)
             ((a10 * b10 - a11 * b08 + a13 * b06) * det)
             ((a01 * b08 - a00 * b10 - a03 * b06) * det)
             ((a30 * b04 - a31 * b02 + a33 * b00) * det)
             ((a21 * b02 - a20 * b04 - a23 * b00) * det)
             ((a11 * b07 - a10 * b09 - a12 * b06) * det)
             ((a00 * b09 - a01 * b07 + a02 * b06) * det)
             ((a31 * b01 - a30 * b03 - a32 * b00) * det)
             ((a20 * b03 - a21 * b01 + a22 * b00) * det))))"

text \<open>
  Modelled from the spec: \<open>mat4_perspective(out, fovy, aspect, near, far)\<close>, the "standard
  symmetric perspective-projection matrix from field-of-view, aspect ratio, near plane, and
  far plane", with \<open>fovy\<close> in radians.
\<close>

definition mat4_perspective :: "jsnum \<Rightarrow> jsnum \<Rightarrow> jsnum \<Rightarrow> jsnum \<Rightarrow> mat4" where
  "mat4_perspective fovy aspect near far =
    (let f = Fin 1 / Math_tan (fovy / Fin 2);
         nf = Fin 1 / (near - far)
     in Mat4
       (f / aspect) (Fin 0) (Fin 0) (Fin 0)
       (Fin 0) f (Fin 0) (Fin 0)
       (Fin 0) (Fin 0) ((far + near) * nf) (Fin (- 1))
       (Fin 0) (Fin 0) ((Fin 2 * far * near) * nf) (Fin 0))"

text \<open>
  Modelled from the spec: the transform of a homogeneous vector "through" a matrix, the
  matrix \<open>m\<close> applied to the column vector \<open>a\<close>.
\<close>

definition vec4_transformMat4 :: "vec4 \<Rightarrow> mat4 \<Rightarrow> vec4" where
  "vec4_transformMat4 a m =
   (case a of (x, y, z, w) \<Rightarrow>
    case m of Mat4 m0 m1 m2 m3 m4 m5 m6 m7 m8 m9 m10 m11 m12 m13 m14 m15 \<Rightarrow>
   (m0 * x + m4 * y + m8 * z + m12 * w,
    m1 * x + m5 * y + m9 * z + m13 * w,
    m2 * x + m6 * y + m10 * z + m14 * w,
    m3 * x + m7 * y + m11 * z + m15 * w))"

text \<open>
  Modelled from the spec: \<open>vec2_lerp(out, a, b, t)\<close>, which "linearly interpolates \<open>(x, y)\<close> of
  the two points by \<open>t\<close>"; it reads the first two components of \<open>a\<close> and \<open>b\<close>.
\<close>

fun vec2_lerp :: "vec4 \<Rightarrow> vec4 \<Rightarrow> jsnum \<Rightarrow> jsnum list" where
  "vec2_lerp (ax, ay, az, aw) (bx, by, bz, bw) t =
     [ax + t * (bx - ax), ay + t * (by - ay)]"

text \<open>A vector all of whose components are finite numbers.\<close>

definition vec4_finite :: "vec4 \<Rightarrow> bool" where
  "vec4_finite v = (case v of (x, y, z, w) \<Rightarrow> is_fin x \<and> is_fin y \<and> is_fin z \<and> is_fin w)"

text \<open>
  Modelled from the spec: \<open>transformVector(matrix, vector)\<close> of the math utilities. The spec
  has: the homogeneous vector is transformed through the matrix; "returns null if
  \<open>pixelUnprojectionMatrix\<close> is absent"; "if either transform fails (matrix produced a
  non-finite or non-normalizable result), return null". The transformed vector is
  normalised by its \<open>w\<close> component; a \<open>w\<close> of zero makes the normalised \<open>w\<close> the value
  \<open>0 * Infinity = NaN\<close>, so the one finiteness test covers both failures.
\<close>

definition transformVector :: "mat4 option \<Rightarrow> vec4 \<Rightarrow> vec4 option" where
  "transformVector matrix vector =
    (case matrix of
       None \<Rightarrow> None
     | Some m \<Rightarrow>
         (case vec4_transformMat4 vector m of (rx, ry, rz, rw) \<Rightarrow>
            let s = Fin 1 / rw;
                result = (rx * s, ry * s, rz * s, rw * s)
            in if vec4_finite result then Some result else None))"

section \<open>The Viewport class\<close>

text \<open>
  What a method can throw: the error of a failed \<open>assert\<close>, with its message, and the type
  error of destructuring \<open>null\<close>.
\<close>

datatype error = AssertionError string | TypeError

definition ZERO_VECTOR :: vec3 where
  "ZERO_VECTOR = (Fin 0, Fin 0, Fin 0)"

record distance_scales =
  pixelsPerMeter :: vec3
  metersPerPixel :: vec3
  pixelsPerDegree :: vec3
  degreesPerPixel :: vec3

definition DEFAULT_DISTANCE_SCALES :: distance_scales where
  "DEFAULT_DISTANCE_SCALES =
    \<lparr>pixelsPerMeter = (Fin 1, Fin 1, Fin 1),
     metersPerPixel = (Fin 1, Fin 1, Fin 1),
     pixelsPerDegree = (Fin 1, Fin 1, Fin 1),
     degreesPerPixel = (Fin 1, Fin 1, Fin 1)\<rparr>"

definition DEFAULT_ZOOM :: jsnum where
  "DEFAULT_ZOOM = Fin 0"

definition ERR_ARGUMENT :: string where
  "ERR_ARGUMENT = ''Illegal argument to Viewport''"

text \<open>
  The other collaborators of the class, none of them under src/, taken as parameters: the
  three functions of viewport-mercator-project (each called in geospatial mode only),
  \<open>extractCameraVectors\<close> of the math utilities, \<open>Matrix4.transformVector\<close> of math.gl
  (applied to \<open>position\<close> when a model matrix is given) and the approximate equality
  \<open>equals\<close> of math.gl on matrices.
\<close>

record ext =
  getMercatorMeterZoom :: "jsnum \<Rightarrow> jsnum"
  getMercatorDistanceScales :: "jsnum \<Rightarrow> jsnum \<Rightarrow> jsnum \<Rightarrow> distance_scales"
  getMercatorWorldPosition :: "jsnum \<Rightarrow> jsnum \<Rightarrow> jsnum \<Rightarrow> vec3 \<Rightarrow> vec3"
  extractCameraVectors :: "mat4 \<Rightarrow> mat4 \<Rightarrow> vec3 \<times> vec3 \<times> vec3"
  Matrix4_transformVector :: "mat4 \<Rightarrow> vec3 \<Rightarrow> vec3"
  math_equals :: "mat4 \<Rightarrow> mat4 \<Rightarrow> bool"

text \<open>
  The constructor's options object; \<open>None\<close> is an option left out (\<open>undefined\<close>), which
  takes the default of the destructuring pattern. An option that is given has the type the
  class expects of it: a number, a matrix of 16 numbers, a vector of 3 numbers.
\<close>

record viewport_opts =
  opt_id :: "string option"
  opt_x :: "jsnum option"
  opt_y :: "jsnum option"
  opt_width :: "jsnum option"
  opt_height :: "jsnum option"
  opt_viewMatrix :: "mat4 option"
  opt_projectionMatrix :: "mat4 option"
  opt_fovy :: "jsnum option"
  opt_near :: "jsnum option"
  opt_far :: "jsnum option"
  opt_longitude :: "jsnum option"
  opt_latitude :: "jsnum option"
  opt_zoom :: "jsnum option"
  opt_position :: "vec3 option"
  opt_modelMatrix :: "mat4 option"
  opt_distanceScales :: "distance_scales option"
  opt_focalDistance :: "jsnum option"

text \<open>The options object \<open>{}\<close>.\<close>

definition no_opts :: viewport_opts where
  "no_opts =
    \<lparr>opt_id = None, opt_x = None, opt_y = None, opt_width = None, opt_height = None,
     opt_viewMatrix = None, opt_projectionMatrix = None, opt_fovy = None, opt_near = None,
     opt_far = None, opt_longitude = None, opt_latitude = None, opt_zoom = None,
     opt_position = None, opt_modelMatrix = None, opt_distanceScales = None,
     opt_focalDistance = None\<rparr>"

text \<open>The instance; its fields \<open>id\<close>, \<open>x\<close> and \<open>y\<close> are \<open>id_vp\<close>, \<open>x_vp\<close> and \<open>y_vp\<close> here.\<close>

record viewport =
  id_vp :: string
  isGeospatial :: bool
  x_vp :: jsnum
  y_vp :: jsnum
  width :: jsnum
  height :: jsnum
  zoom :: jsnum
  scale :: jsnum
  distanceScales :: distance_scales
  focalDistance :: jsnum
  position :: vec3
  modelMatrix :: "mat4 option"
  meterOffset :: vec3
  viewMatrixUncentered :: mat4
  center :: "vec3 option"
  viewMatrix :: mat4
  projectionMatrix :: mat4
  viewProjectionMatrix :: mat4
  viewMatrixInverse :: mat4
  cameraPosition :: vec3
  cameraDirection :: vec3
  cameraUp :: vec3
  pixelProjectionMatrix :: mat4
  pixelUnprojectionMatrix :: "mat4 option"

text \<open>
  \<open>_initMatrices()\<close>: reads \<open>projectionMatrix\<close>, \<open>viewMatrix\<close>, \<open>width\<close> and \<open>height\<close> of the
  instance and stores the derived matrices and camera vectors. The warning logged for a
  matrix that is not invertible has no effect on the instance.
\<close>

definition initMatrices :: "ext \<Rightarrow> viewport \<Rightarrow> viewport" where
  "initMatrices e this =
    (let vpm = mat4_multiply (mat4_multiply createMat4 (projectionMatrix this)) (viewMatrix this);
         vmi = (case mat4_invert (viewMatrix this) of Some i \<Rightarrow> i | None \<Rightarrow> viewMatrix this);
         m = mat4_multiply
               (mat4_translate
                 (mat4_scale createMat4 (width this / Fin 2, (- height this) / Fin 2, Fin 1))
                 (Fin 1, Fin (- 1), Fin 0))
               vpm
     in case extractCameraVectors e (viewMatrix this) vmi of (eye, direction, up) \<Rightarrow>
        this\<lparr>viewProjectionMatrix := vpm,
             viewMatrixInverse := vmi,
             cameraPosition := eye,
             cameraDirection := direction,
             cameraUp := up,
             pixelProjectionMatrix := m,
             pixelUnprojectionMatrix := mat4_invert m\<rparr>)"

text \<open>
  The constructor, in two parts: \<open>Viewport_fields\<close> is the instance after the assignments
  up to the view matrix, and \<open>Viewport_new\<close> resolves the projection matrix on it and calls
  \<open>_initMatrices\<close>. The fields assigned later are unassigned in \<open>Viewport_fields\<close>; the record
  holds placeholders there, which \<open>Viewport_new\<close> and \<open>initMatrices\<close> overwrite. The two
  vectors of the distance scales that the constructor wraps as \<open>Vector3\<close> keep their
  components. The binding of the methods to the instance has no counterpart here.
\<close>

definition negate :: "vec3 \<Rightarrow> vec3" where
  "negate v = (case v of (a, b, c) \<Rightarrow> (- a, - b, - c))"

definition Viewport_fields :: "ext \<Rightarrow> viewport_opts \<Rightarrow> viewport" where
  "Viewport_fields e opts =
    (let latitude = to_number (opt_latitude opts);
         longitude = to_number (opt_longitude opts);
         vm = (case opt_viewMatrix opts of None \<Rightarrow> IDENTITY | Some v \<Rightarrow> v);
         geo = (Number_isFinite (opt_latitude opts) \<and> Number_isFinite (opt_longitude opts));
         zm = (if Number_isFinite (opt_zoom opts) then to_number (opt_zoom opts)
               else if geo then getMercatorMeterZoom e latitude else DEFAULT_ZOOM);
         sc = Math_pow2 zm;
         ds = (if geo then getMercatorDistanceScales e latitude longitude sc
               else (case opt_distanceScales opts of None \<Rightarrow> DEFAULT_DISTANCE_SCALES
                     | Some d \<Rightarrow> d));
         mo = (case opt_position opts of
                 None \<Rightarrow> ZERO_VECTOR
               | Some p \<Rightarrow>
                   (case opt_modelMatrix opts of None \<Rightarrow> p
                    | Some mm \<Rightarrow> Matrix4_transformVector e mm p));
         c = (if geo then Some (getMercatorWorldPosition e longitude latitude zm mo)
              else opt_position opts)
     in \<lparr>id_vp = (case opt_id opts of None \<Rightarrow> ''Viewport''
                    | Some s \<Rightarrow> if s = [] then ''Viewport'' else s),
         isGeospatial = geo,
         x_vp = (case opt_x opts of None \<Rightarrow> Fin 0 | Some a \<Rightarrow> a),
         y_vp = (case opt_y opts of None \<Rightarrow> Fin 0 | Some a \<Rightarrow> a),
         width = or_default (opt_width opts) (Fin 1),
         height = or_default (opt_height opts) (Fin 1),
         zoom = zm,
         scale = sc,
         distanceScales = ds,
         focalDistance = or_default (opt_focalDistance opts) (Fin 1),
         position = (case opt_position opts of None \<Rightarrow> ZERO_VECTOR | Some p \<Rightarrow> p),
         modelMatrix = (case opt_position opts of None \<Rightarrow> None
                        | Some p \<Rightarrow> opt_modelMatrix opts),
         meterOffset = mo,
         viewMatrixUncentered = vm,
         center = c,
         viewMatrix =
           (if geo
            then mat4_translate
                   (mat4_scale (mat4_multiply createMat4 vm) (Fin 1, Fin (- 1), Fin 1))
                   (negate (case c of None \<Rightarrow> ZERO_VECTOR | Some cc \<Rightarrow> cc))
            else vm),
         projectionMatrix = createMat4,
         viewProjectionMatrix = createMat4,
         viewMatrixInverse = createMat4,
         cameraPosition = ZERO_VECTOR,
         cameraDirection = ZERO_VECTOR,
         cameraUp = ZERO_VECTOR,
         pixelProjectionMatrix = createMat4,
         pixelUnprojectionMatrix = None\<rparr>)"

definition Viewport_new :: "ext \<Rightarrow> viewport_opts \<Rightarrow> error + viewport" where
  "Viewport_new e opts =
    (let this = Viewport_fields e opts;
         fovy = (case opt_fovy opts of None \<Rightarrow> Fin 75 | Some f \<Rightarrow> f);
         near = (case opt_near opts of None \<Rightarrow> Fin (1 / 10) | Some n \<Rightarrow> n);
         far = (case opt_far opts of None \<Rightarrow> Fin 1000 | Some f \<Rightarrow> f)
     in case opt_projectionMatrix opts of
          Some pm \<Rightarrow> Inr (initMatrices e (this\<lparr>projectionMatrix := pm\<rparr>))
        | None \<Rightarrow>
            if \<not> is_fin fovy then Inl (AssertionError [])
            else
              (let DEGREES_TO_RADIANS = Math_PI / Fin 180;
                   fovyRadians = fovy * DEGREES_TO_RADIANS;
                   aspect = width this / height this
               in Inr (initMatrices e
                        (this\<lparr>projectionMatrix :=
                                mat4_perspective fovyRadians aspect near far\<rparr>))))"

text \<open>
  The non-linear projection hooks of the base class: \<open>projectFlat_base\<close> and
  \<open>unprojectFlat_base\<close> are the methods \<open>_projectFlat\<close> and \<open>_unprojectFlat\<close>, to which
  \<open>projectFlat\<close> and \<open>unprojectFlat\<close> pass their arguments on. The second argument is the
  optional \<open>scale\<close>.
\<close>

definition projectFlat_base :: "viewport \<Rightarrow> jsnum list \<Rightarrow> jsnum option \<Rightarrow> jsnum list" where
  "projectFlat_base this xyz scale_arg = xyz"

definition unprojectFlat_base :: "viewport \<Rightarrow> jsnum list \<Rightarrow> jsnum option \<Rightarrow> jsnum list" where
  "unprojectFlat_base this xyz scale_arg = xyz"

definition projectFlat :: "viewport \<Rightarrow> jsnum list \<Rightarrow> jsnum option \<Rightarrow> jsnum list" where
  "projectFlat this xy scale_arg = projectFlat_base this xy scale_arg"

definition unprojectFlat :: "viewport \<Rightarrow> jsnum list \<Rightarrow> jsnum option \<Rightarrow> jsnum list" where
  "unprojectFlat this xyz scale_arg = unprojectFlat_base this xyz scale_arg"

text \<open>Reading element \<open>i\<close> of an array: \<open>None\<close> is \<open>undefined\<close>, past the end.\<close>

definition elem :: "jsnum list \<Rightarrow> nat \<Rightarrow> jsnum option" where
  "elem xs i = (if i < length xs then Some (xs ! i) else None)"

text \<open>\<open>project(xyz, {topLeft})\<close>.\<close>

definition project :: "viewport \<Rightarrow> jsnum list \<Rightarrow> bool \<Rightarrow> error + jsnum list" where
  "project this xyz topLeft =
    (let x0 = elem xyz 0;
         y0 = elem xyz 1;
         z0 = (case elem xyz 2 of None \<Rightarrow> Some (Fin 0) | Some z \<Rightarrow> Some z)
     in if \<not> (Number_isFinite x0 \<and> Number_isFinite y0 \<and> Number_isFinite z0)
        then Inl (AssertionError ERR_ARGUMENT)
        else
          (let XY = projectFlat this [to_number x0, to_number y0] None;
               v = transformVector (Some (pixelProjectionMatrix this))
                     (to_number (elem XY 0), to_number (elem XY 1), to_number z0, Fin 1)
           in case v of
                None \<Rightarrow> Inl TypeError
              | Some (x, y, z, w) \<Rightarrow>
                  (let y2 = (if topLeft then height this - y else y)
                   in Inr (if length xyz = 2 then [x, y2] else [x, y2, Fin 0]))))"

text \<open>
  \<open>unproject(xyz, {topLeft})\<close>, in three parts: the two endpoints of the ray through the
  pixel, the interpolation parameter, and the method itself.
\<close>

definition unproject_ray :: "viewport \<Rightarrow> jsnum list \<Rightarrow> bool \<Rightarrow> vec4 option \<times> vec4 option" where
  "unproject_ray this xyz topLeft =
    (let x = to_number (elem xyz 0);
         y = to_number (elem xyz 1);
         y2 = (if topLeft then height this - y else y);
         coord0 = transformVector (pixelUnprojectionMatrix this) (x, y2, Fin 0, Fin 1);
         coord1 = transformVector (pixelUnprojectionMatrix this) (x, y2, Fin 1, Fin 1)
     in (coord0, coord1))"

definition unproject_t :: "jsnum \<Rightarrow> jsnum \<Rightarrow> jsnum \<Rightarrow> jsnum" where
  "unproject_t targetZ z0 z1 =
    (if strict_eq z0 z1 then Fin 0 else (targetZ - z0) / (z1 - z0))"

definition unproject :: "viewport \<Rightarrow> jsnum list \<Rightarrow> bool \<Rightarrow> jsnum list option" where
  "unproject this xyz topLeft =
    (let targetZ = (case elem xyz 2 of None \<Rightarrow> Fin 0 | Some z \<Rightarrow> z)
     in case unproject_ray this xyz topLeft of
          (Some coord0, Some coord1) \<Rightarrow>
            (let z0 = fst (snd (snd coord0));
                 z1 = fst (snd (snd coord1));
                 t = unproject_t targetZ z0 z1;
                 v = vec2_lerp coord0 coord1 t;
                 vUnprojected = unprojectFlat this v None
             in Some (if length xyz = 2 then vUnprojected
                      else [to_number (elem vUnprojected 0), to_number (elem vUnprojected 1),
                            Fin 0]))
        | _ \<Rightarrow> None)"

text \<open>
  \<open>equals(viewport)\<close>. Its argument is any value: a Viewport instance or something else.
\<close>

datatype jsvalue = VViewport viewport | VOther

definition equals :: "ext \<Rightarrow> viewport \<Rightarrow> jsvalue \<Rightarrow> bool" where
  "equals e this other =
    (case other of
       VOther \<Rightarrow> False
     | VViewport vp \<Rightarrow>
         strict_eq (width vp) (width this) \<and>
         strict_eq (height vp) (height this) \<and>
         math_equals e (projectionMatrix vp) (projectionMatrix this) \<and>
         math_equals e (viewMatrix vp) (viewMatrix this))"

section \<open>Example inputs\<close>

text \<open>
  Collaborators for the examples, which are all in non-geospatial mode with neither position
  nor model matrix, where none of the mercator functions is called.
\<close>

definition stub_ext :: ext where
  "stub_ext =
    \<lparr>getMercatorMeterZoom = (\<lambda>latitude. Fin 0),
     getMercatorDistanceScales = (\<lambda>latitude longitude sc. DEFAULT_DISTANCE_SCALES),
     getMercatorWorldPosition = (\<lambda>longitude latitude zm mo. ZERO_VECTOR),
     extractCameraVectors = (\<lambda>vm vmi. (ZERO_VECTOR, ZERO_VECTOR, ZERO_VECTOR)),
     Matrix4_transformVector = (\<lambda>mm v. v),
     math_equals = (\<lambda>a b. a = b)\<rparr>"

text \<open>
  The instance that the constructor returns for the options \<open>opts\<close> once it has resolved the
  projection matrix to \<open>pm\<close>.
\<close>

definition example_view :: "viewport_opts \<Rightarrow> mat4 \<Rightarrow> viewport" where
  "example_view opts pm =
     initMatrices stub_ext ((Viewport_fields stub_ext opts)\<lparr>projectionMatrix := pm\<rparr>)"

text \<open>
  An orthographic view from above: a window of 800 by 600 pixels, the identity as view and
  as projection matrix.
\<close>

definition top_view_opts :: viewport_opts where
  "top_view_opts =
    no_opts\<lparr>opt_width := Some (Fin 800), opt_height := Some (Fin 600),
            opt_projectionMatrix := Some IDENTITY\<rparr>"

text \<open>
  An orthographic view from the side: the view matrix is the rotation that takes the world
  point \<open>(x, y, z)\<close> to \<open>(x, z, - y)\<close>, so the camera looks along the world's y axis, parallel
  to the plane \<open>z = 0\<close>; the window is 2 by 2 pixels.
\<close>

definition side_view :: mat4 where
  "side_view = Mat4
     (Fin 1) (Fin 0) (Fin 0) (Fin 0)
     (Fin 0) (Fin 0) (Fin (- 1)) (Fin 0)
     (Fin 0) (Fin 1) (Fin 0) (Fin 0)
     (Fin 0) (Fin 0) (Fin 0) (Fin 1)"

definition side_view_opts :: viewport_opts where
  "side_view_opts =
    no_opts\<lparr>opt_width := Some (Fin 2), opt_height := Some (Fin 2),
            opt_viewMatrix := Some side_view, opt_projectionMatrix := Some IDENTITY\<rparr>"

text \<open>A supplied projection matrix with zero scale on the x axis.\<close>

definition zero_x_scale :: mat4 where
  "zero_x_scale = Mat4
     (Fin 0) (Fin 0) (Fin 0) (Fin 0)
     (Fin 0) (Fin 1) (Fin 0) (Fin 0)
     (Fin 0) (Fin 0) (Fin 1) (Fin 0)
     (Fin 0) (Fin 0) (Fin 0) (Fin 1)"

definition zero_scale_opts :: viewport_opts where
  "zero_scale_opts = no_opts\<lparr>opt_projectionMatrix := Some zero_x_scale\<rparr>"

text \<open>
  The perspective example: 800 by 600 pixels, identity view matrix, no projection matrix
  supplied, \<open>fovy\<close> 75 degrees, \<open>near\<close> 0.1 and \<open>far\<close> 1000; \<open>perspective_matrix\<close> is the
  projection matrix that the constructor builds from them.
\<close>

definition perspective_opts :: viewport_opts where
  "perspective_opts =
    no_opts\<lparr>opt_width := Some (Fin 800), opt_height := Some (Fin 600),
            opt_viewMatrix := Some IDENTITY, opt_fovy := Some (Fin 75),
            opt_near := Some (Fin (1 / 10)), opt_far := Some (Fin 1000)\<rparr>"

definition perspective_matrix :: mat4 where
  "perspective_matrix =
     mat4_perspective (Fin 75 * (Math_PI / Fin 180)) (Fin 800 / Fin 600) (Fin (1 / 10))
       (Fin 1000)"

text \<open>Options with a zero width, with sizes below 1, and with a zoom of 12.\<close>

definition zero_width_opts :: viewport_opts where
  "zero_width_opts =
    no_opts\<lparr>opt_width := Some (Fin 0), opt_height := Some (Fin 600),
            opt_projectionMatrix := Some IDENTITY\<rparr>"

definition small_size_opts :: viewport_opts where
  "small_size_opts =
    no_opts\<lparr>opt_width := Some (Fin (1 / 2)), opt_height := Some (Fin (- 3)),
            opt_projectionMatrix := Some IDENTITY\<rparr>"

definition zoom12_opts :: viewport_opts where
  "zoom12_opts = no_opts\<lparr>opt_zoom := Some (Fin 12), opt_projectionMatrix := Some IDENTITY\<rparr>"

section \<open>Basic facts\<close>

lemma Fin_minus [simp]: "Fin a - Fin b = Fin (a - b)"
  by (simp add: minus_jsnum_def)

lemma NaN_minus [simp]: "NaN - a = NaN" "a - NaN = NaN"
  by (cases a; simp add: minus_jsnum_def)+

lemma NaN_absorb [simp]:
  "NaN + a = NaN" "a + NaN = NaN" "NaN * a = NaN" "a * NaN = NaN"
  by (cases a; simp)+

lemma falsy_iff: "falsy a \<longleftrightarrow> a = Fin 0 \<or> a = NaN"
  by (cases a) auto


text \<open>
  In this arithmetic a sum, a difference or a product is finite only if both operands are:
  a special value never turns back into a finite one.
\<close>

lemma is_fin_plus [simp]: "is_fin (a + b) \<longleftrightarrow> is_fin a \<and> is_fin b"
  by (cases a; cases b; simp)

lemma is_fin_times [simp]: "is_fin (a * b) \<longleftrightarrow> is_fin a \<and> is_fin b"
  by (cases a; cases b; simp)

lemma is_fin_uminus [simp]: "is_fin (- a) \<longleftrightarrow> is_fin a"
  by (cases a; simp)

lemma is_fin_minus [simp]: "is_fin (a - b) \<longleftrightarrow> is_fin a \<and> is_fin b"
  by (simp add: minus_jsnum_def)

lemma is_fin_half [simp]: "is_fin (a / Fin 2) \<longleftrightarrow> is_fin a"
  by (cases a; simp)

lemma no_opts_simps [simp]:
  "opt_id no_opts = None" "opt_x no_opts = None" "opt_y no_opts = None"
  "opt_width no_opts = None" "opt_height no_opts = None" "opt_viewMatrix no_opts = None"
  "opt_projectionMatrix no_opts = None" "opt_fovy no_opts = None" "opt_near no_opts = None"
  "opt_far no_opts = None" "opt_longitude no_opts = None" "opt_latitude no_opts = None"
  "opt_zoom no_opts = None" "opt_position no_opts = None" "opt_modelMatrix no_opts = None"
  "opt_distanceScales no_opts = None" "opt_focalDistance no_opts = None"
  by (simp_all add: no_opts_def)

lemmas mat_eval = initMatrices_def mat4_multiply_def mat4_scale_def mat4_translate_def
  mat4_invert_def createMat4_def IDENTITY_def Let_def

lemmas run_eval = project_def unproject_def unproject_ray_def unproject_t_def
  transformVector_def vec4_transformMat4_def vec4_finite_def elem_def
  projectFlat_def projectFlat_base_def unprojectFlat_def unprojectFlat_base_def

lemmas example_eval = example_view_def Viewport_fields_def stub_ext_def top_view_opts_def
  side_view_opts_def side_view_def zero_scale_opts_def zero_x_scale_def

section \<open>Facts about the constructor\<close>

lemma initMatrices_keeps [simp]:
  "width (initMatrices e t) = width t"
  "height (initMatrices e t) = height t"
  "zoom (initMatrices e t) = zoom t"
  "scale (initMatrices e t) = scale t"
  "isGeospatial (initMatrices e t) = isGeospatial t"
  "distanceScales (initMatrices e t) = distanceScales t"
  "viewMatrix (initMatrices e t) = viewMatrix t"
  "projectionMatrix (initMatrices e t) = projectionMatrix t"
  by (simp_all add: initMatrices_def Let_def split: prod.split)

lemma initMatrices_pum:
  "pixelUnprojectionMatrix (initMatrices e t) =
     mat4_invert (pixelProjectionMatrix (initMatrices e t))"
  by (simp add: initMatrices_def Let_def split: prod.split)

lemma Viewport_fields_simps [simp]:
  "width (Viewport_fields e opts) = or_default (opt_width opts) (Fin 1)"
  "height (Viewport_fields e opts) = or_default (opt_height opts) (Fin 1)"
  "isGeospatial (Viewport_fields e opts) =
     (Number_isFinite (opt_latitude opts) \<and> Number_isFinite (opt_longitude opts))"
  "zoom (Viewport_fields e opts) =
     (if Number_isFinite (opt_zoom opts) then to_number (opt_zoom opts)
      else if Number_isFinite (opt_latitude opts) \<and> Number_isFinite (opt_longitude opts)
           then getMercatorMeterZoom e (to_number (opt_latitude opts)) else Fin 0)"
  "scale (Viewport_fields e opts) = Math_pow2 (zoom (Viewport_fields e opts))"
  by (simp_all add: Viewport_fields_def Let_def DEFAULT_ZOOM_def)

lemma Viewport_new_Inr:
  assumes "Viewport_new e opts = Inr vp"
  obtains pm where "vp = initMatrices e ((Viewport_fields e opts)\<lparr>projectionMatrix := pm\<rparr>)"
  using assms
  by (auto simp: Viewport_new_def Let_def split: option.splits if_splits)

lemma Viewport_new_pum:
  "Viewport_new e opts = Inr vp \<Longrightarrow>
     pixelUnprojectionMatrix vp = mat4_invert (pixelProjectionMatrix vp)"
  by (erule Viewport_new_Inr) (simp add: initMatrices_pum)

lemma Viewport_new_example:
  "opt_projectionMatrix opts = Some pm \<Longrightarrow>
     Viewport_new stub_ext opts = Inr (example_view opts pm)"
  by (simp add: Viewport_new_def example_view_def Let_def)

section \<open>The transform of a vector, and the interpolation at 0\<close>



section \<open>The hooks of the base class\<close>

text \<open>
  C10. For every Viewport instance of the base class, geospatial or not, every point \<open>p\<close> and
  every scale argument \<open>s\<close> (given or left out), \<open>projectFlat(p, s)\<close> returns \<open>p\<close> unchanged and
  \<open>unprojectFlat(p, s)\<close> returns \<open>p\<close> unchanged: the base class applies no mercator transform.
\<close>

theorem flat_hooks_identity:
  "projectFlat vp p s = p \<and> unprojectFlat vp p s = p"
  by (simp add: projectFlat_def projectFlat_base_def unprojectFlat_def unprojectFlat_base_def)

section \<open>The constructor\<close>

text \<open>
  C6, as the code has it. The constructed width and height are the supplied values, except
  that an absent, zero or NaN width or height is replaced by 1. The replacement is not a
  floor: a supplied non-zero value below 1 is kept.
\<close>

theorem width_height_replacement:
  assumes "Viewport_new e opts = Inr vp"
  shows "width vp = (case opt_width opts of None \<Rightarrow> Fin 1
                     | Some w \<Rightarrow> if w = Fin 0 \<or> w = NaN then Fin 1 else w) \<and>
         height vp = (case opt_height opts of None \<Rightarrow> Fin 1
                      | Some h \<Rightarrow> if h = Fin 0 \<or> h = NaN then Fin 1 else h)"
  using assms by (elim Viewport_new_Inr) (auto simp: falsy_iff split: option.splits)

theorem width_height_replacement_witness:
  "Viewport_new stub_ext zero_width_opts = Inr (example_view zero_width_opts IDENTITY) \<and>
   width (example_view zero_width_opts IDENTITY) = Fin 1 \<and>
   height (example_view zero_width_opts IDENTITY) = Fin 600"
proof -
  have v: "Viewport_new stub_ext zero_width_opts = Inr (example_view zero_width_opts IDENTITY)"
    by (simp add: Viewport_new_example zero_width_opts_def)
  from width_height_replacement [OF v]
  have "width (example_view zero_width_opts IDENTITY) = Fin 1 \<and>
        height (example_view zero_width_opts IDENTITY) = Fin 600"
    by (simp add: zero_width_opts_def)
  with v show ?thesis by simp
qed

text \<open>
  C6 as stated fails: with width 1/2 and height -3 the constructor succeeds and keeps both
  values, each below 1.
\<close>

theorem width_floor_counterexample:
  "Viewport_new stub_ext small_size_opts = Inr (example_view small_size_opts IDENTITY) \<and>
   width (example_view small_size_opts IDENTITY) = Fin (1 / 2) \<and>
   height (example_view small_size_opts IDENTITY) = Fin (- 3)"
proof -
  have "Viewport_new stub_ext small_size_opts = Inr (example_view small_size_opts IDENTITY)"
    by (simp add: Viewport_new_example small_size_opts_def)
  moreover have "width (example_view small_size_opts IDENTITY) = Fin (1 / 2)"
    and "height (example_view small_size_opts IDENTITY) = Fin (- 3)"
    by (simp_all add: example_view_def small_size_opts_def)
  ultimately show ?thesis by simp
qed

text \<open>
  C4. For every constructed Viewport, \<open>scale\<close> is 2 to the power \<open>zoom\<close>, where \<open>zoom\<close> is the
  input zoom if that is a finite number, otherwise the latitude-derived mercator default in
  geospatial mode (latitude and longitude both finite), otherwise the constant 0. No method
  of the class assigns either field: every method is a function of the instance that
  returns a value, so the equation holds for as long as the instance is used.
\<close>

theorem scale_invariant:
  assumes "Viewport_new e opts = Inr vp"
  shows "scale vp = Math_pow2 (zoom vp) \<and>
         zoom vp =
           (if Number_isFinite (opt_zoom opts) then to_number (opt_zoom opts)
            else if isGeospatial vp then getMercatorMeterZoom e (to_number (opt_latitude opts))
            else Fin 0) \<and>
         isGeospatial vp =
           (Number_isFinite (opt_latitude opts) \<and> Number_isFinite (opt_longitude opts))"
  using assms by (elim Viewport_new_Inr) simp

theorem scale_invariant_witness:
  "Viewport_new stub_ext zoom12_opts = Inr (example_view zoom12_opts IDENTITY) \<and>
   zoom (example_view zoom12_opts IDENTITY) = Fin 12 \<and>
   scale (example_view zoom12_opts IDENTITY) = Fin 4096"
proof -
  have v: "Viewport_new stub_ext zoom12_opts = Inr (example_view zoom12_opts IDENTITY)"
    by (simp add: Viewport_new_example zoom12_opts_def)
  from scale_invariant [OF v]
  have "zoom (example_view zoom12_opts IDENTITY) = Fin 12 \<and>
        scale (example_view zoom12_opts IDENTITY) = Fin 4096"
    by (simp add: zoom12_opts_def)
  with v show ?thesis by simp
qed

section \<open>Equality of viewports\<close>

text \<open>
  C8. \<open>v1.equals(other)\<close> is true if and only if \<open>other\<close> is a Viewport instance whose width
  and height are identical to those of \<open>v1\<close> and whose projection and view matrices are
  approximately equal to those of \<open>v1\<close>. The distance scales are not compared: replacing
  them on either side does not change the answer.
\<close>

theorem equals_definition:
  "(equals e v1 other \<longleftrightarrow>
      (\<exists>v2. other = VViewport v2 \<and>
            strict_eq (width v2) (width v1) \<and> strict_eq (height v2) (height v1) \<and>
            math_equals e (projectionMatrix v2) (projectionMatrix v1) \<and>
            math_equals e (viewMatrix v2) (viewMatrix v1))) \<and>
   equals e (v1\<lparr>distanceScales := d1\<rparr>) (VViewport (v2\<lparr>distanceScales := d2\<rparr>)) =
     equals e v1 (VViewport v2)"
  by (cases other) (auto simp: equals_def)

section \<open>A matrix that is not invertible\<close>

text \<open>
  C2. The constructor fails only on the field-of-view assertion, which is checked when no
  projection matrix is supplied: a pixel projection matrix that is not invertible never
  makes it throw. On the constructed instance the pixel unprojection matrix is then absent,
  and every call of \<open>unproject\<close> returns \<open>null\<close>.
\<close>

theorem singular_matrix_safety:
  "(Viewport_new e opts = Inl err \<longleftrightarrow>
      opt_projectionMatrix opts = None \<and> err = AssertionError [] \<and>
      \<not> is_fin (case opt_fovy opts of None \<Rightarrow> Fin 75 | Some f \<Rightarrow> f)) \<and>
   (Viewport_new e opts = Inr vp \<longrightarrow> mat4_invert (pixelProjectionMatrix vp) = None \<longrightarrow>
      pixelUnprojectionMatrix vp = None \<and> unproject vp xyz topLeft = None)"
proof (intro conjI impI)
  show "Viewport_new e opts = Inl err \<longleftrightarrow>
      opt_projectionMatrix opts = None \<and> err = AssertionError [] \<and>
      \<not> is_fin (case opt_fovy opts of None \<Rightarrow> Fin 75 | Some f \<Rightarrow> f)"
    by (auto simp: Viewport_new_def Let_def split: option.splits)
next
  assume v: "Viewport_new e opts = Inr vp"
    and s: "mat4_invert (pixelProjectionMatrix vp) = None"
  from Viewport_new_pum [OF v] s show p: "pixelUnprojectionMatrix vp = None"
    by simp
  show "unproject vp xyz topLeft = None"
    by (simp add: unproject_def unproject_ray_def transformVector_def p Let_def)
qed

theorem singular_matrix_safety_witness:
  "Viewport_new stub_ext zero_scale_opts = Inr (example_view zero_scale_opts zero_x_scale) \<and>
   mat4_invert (pixelProjectionMatrix (example_view zero_scale_opts zero_x_scale)) = None \<and>
   pixelUnprojectionMatrix (example_view zero_scale_opts zero_x_scale) = None \<and>
   unproject (example_view zero_scale_opts zero_x_scale) [Fin 400, Fin 300] False = None"
proof -
  let ?vp = "example_view zero_scale_opts zero_x_scale"
  have v: "Viewport_new stub_ext zero_scale_opts = Inr ?vp"
    by (simp add: Viewport_new_example zero_scale_opts_def)
  have s: "mat4_invert (pixelProjectionMatrix ?vp) = None"
    by (simp add: example_eval mat_eval)
  from singular_matrix_safety
    [of stub_ext zero_scale_opts "AssertionError []" ?vp "[Fin 400, Fin 300]" False] v s
  show ?thesis by simp
qed

section \<open>Validation of the input coordinate\<close>

text \<open>
  The check that \<open>project\<close> makes on its input. \<open>project\<close> fails at once, with the assertion
  error whose message is \<open>ERR_ARGUMENT\<close> and with no partial result, exactly when one of the
  components it reads is missing or is not a finite number: \<open>x\<close>, \<open>y\<close>, and \<open>z\<close> when the input
  has a third component.
\<close>

lemma project_validates_input:
  "project vp xyz topLeft = Inl (AssertionError ERR_ARGUMENT) \<longleftrightarrow>
     \<not> (2 \<le> length xyz \<and> is_fin (xyz ! 0) \<and> is_fin (xyz ! 1) \<and>
        (length xyz = 2 \<or> is_fin (xyz ! 2)))"
  by (auto simp: project_def elem_def Let_def split: option.splits prod.splits)

text \<open>
  C5. On the top view, the input \<open>[0, 0, NaN]\<close> has a component that is not a finite
  number. \<open>project\<close> refuses it with the assertion error \<open>ERR_ARGUMENT\<close>, as C5 says of both
  methods. \<open>unproject\<close> has no such assertion: it does not fail on this input and returns
  the coordinate \<open>[NaN, NaN, 0]\<close>.
\<close>

theorem unproject_accepts_nan:
  "Viewport_new stub_ext top_view_opts = Inr (example_view top_view_opts IDENTITY) \<and>
   project (example_view top_view_opts IDENTITY) [Fin 0, Fin 0, NaN] False =
     Inl (AssertionError ERR_ARGUMENT) \<and>
   unproject (example_view top_view_opts IDENTITY) [Fin 0, Fin 0, NaN] False =
     Some [NaN, NaN, Fin 0]"
proof -
  have "Viewport_new stub_ext top_view_opts = Inr (example_view top_view_opts IDENTITY)"
    by (simp add: Viewport_new_example top_view_opts_def)
  moreover have
    "project (example_view top_view_opts IDENTITY) [Fin 0, Fin 0, NaN] False =
       Inl (AssertionError ERR_ARGUMENT)"
    "unproject (example_view top_view_opts IDENTITY) [Fin 0, Fin 0, NaN] False =
       Some [NaN, NaN, Fin 0]"
    by (simp_all add: example_eval mat_eval run_eval)
  ultimately show ?thesis by simp
qed

section \<open>The perspective example\<close>

lemma perspective_75:
  obtains f where "f \<noteq> 0"
    and "perspective_matrix =
         Mat4 (Fin (f * 3 / 4)) (Fin 0) (Fin 0) (Fin 0)
              (Fin 0) (Fin f) (Fin 0) (Fin 0)
              (Fin 0) (Fin 0) (Fin (- (10001 / 9999))) (Fin (- 1))
              (Fin 0) (Fin 0) (Fin (- (2000 / 9999))) (Fin 0)"
proof -
  have "0 < 5 * pi / 24" and "5 * pi / 24 < pi / 2"
    by simp_all
  then have s: "0 < sin (5 * pi / 24)" and c: "0 < cos (5 * pi / 24)"
    by (simp_all add: sin_gt_zero cos_gt_zero)
  show thesis
  proof (rule that [of "cos (5 * pi / 24) / sin (5 * pi / 24)"])
    show "cos (5 * pi / 24) / sin (5 * pi / 24) \<noteq> 0"
      using s c by simp
    show "perspective_matrix =
         Mat4 (Fin (cos (5 * pi / 24) / sin (5 * pi / 24) * 3 / 4)) (Fin 0) (Fin 0) (Fin 0)
              (Fin 0) (Fin (cos (5 * pi / 24) / sin (5 * pi / 24))) (Fin 0) (Fin 0)
              (Fin 0) (Fin 0) (Fin (- (10001 / 9999))) (Fin (- 1))
              (Fin 0) (Fin 0) (Fin (- (2000 / 9999))) (Fin 0)"
      using s c
      by (simp add: perspective_matrix_def Math_PI_def mat4_perspective_def Let_def)
  qed
qed

lemma Viewport_new_perspective:
  "Viewport_new stub_ext perspective_opts =
     Inr (example_view perspective_opts perspective_matrix)"
  by (simp add: Viewport_new_def example_view_def perspective_matrix_def perspective_opts_def
      Let_def)

text \<open>
  The matrices of the perspective example, with \<open>f = 1 / tan (fovy / 2)\<close>, which is not zero.
\<close>

lemma perspective_viewport:
  obtains f where "f \<noteq> 0"
    and "height (example_view perspective_opts perspective_matrix) = Fin 600"
    and "pixelProjectionMatrix (example_view perspective_opts perspective_matrix) =
           Mat4 (Fin (300 * f)) (Fin 0) (Fin 0) (Fin 0)
                (Fin 0) (Fin (- (f * 300))) (Fin 0) (Fin 0)
                (Fin (- 400)) (Fin (- 300)) (Fin (- (10001 / 9999))) (Fin (- 1))
                (Fin 0) (Fin 0) (Fin (- (2000 / 9999))) (Fin 0)"
    and "pixelUnprojectionMatrix (example_view perspective_opts perspective_matrix) = Some
          (Mat4 (Fin (1 / (300 * f))) (Fin 0) (Fin 0) (Fin 0)
                (Fin 0) (Fin (- (1 / (300 * f)))) (Fin 0) (Fin 0)
                (Fin 0) (Fin 0) (Fin 0) (Fin (- (9999 / 2000)))
                (Fin (- (4 / (3 * f)))) (Fin (1 / f)) (Fin (- 1)) (Fin (10001 / 2000)))"
proof -
  obtain f where f: "f \<noteq> 0"
    and p: "perspective_matrix =
         Mat4 (Fin (f * 3 / 4)) (Fin 0) (Fin 0) (Fin 0)
              (Fin 0) (Fin f) (Fin 0) (Fin 0)
              (Fin 0) (Fin 0) (Fin (- (10001 / 9999))) (Fin (- 1))
              (Fin 0) (Fin 0) (Fin (- (2000 / 9999))) (Fin 0)"
    by (rule perspective_75)
  show thesis
    by (rule that [OF f])
      (simp_all add: example_view_def Viewport_fields_def perspective_opts_def stub_ext_def
        p f mat_eval)
qed

text \<open>
  C9, as the code has it. On the perspective example a point on the optical axis in front
  of the camera, \<open>[0, 0, -1]\<close>, projects to the image centre \<open>[400, 300, 0]\<close>, and
  \<open>unproject([400, 300])\<close> with target depth 0 returns \<open>[0, 0]\<close> (and \<open>[0, 0, 0]\<close> for the
  3-component pixel \<open>[400, 300, 0]\<close>).
\<close>

theorem perspective_example:
  "Viewport_new stub_ext perspective_opts =
     Inr (example_view perspective_opts perspective_matrix) \<and>
   project (example_view perspective_opts perspective_matrix) [Fin 0, Fin 0, Fin (- 1)] False =
     Inr [Fin 400, Fin 300, Fin 0] \<and>
   unproject (example_view perspective_opts perspective_matrix) [Fin 400, Fin 300] False =
     Some [Fin 0, Fin 0] \<and>
   unproject (example_view perspective_opts perspective_matrix) [Fin 400, Fin 300, Fin 0] False =
     Some [Fin 0, Fin 0, Fin 0]"
proof -
  obtain f where "f \<noteq> 0"
    and "height (example_view perspective_opts perspective_matrix) = Fin 600"
    and "pixelProjectionMatrix (example_view perspective_opts perspective_matrix) =
           Mat4 (Fin (300 * f)) (Fin 0) (Fin 0) (Fin 0)
                (Fin 0) (Fin (- (f * 300))) (Fin 0) (Fin 0)
                (Fin (- 400)) (Fin (- 300)) (Fin (- (10001 / 9999))) (Fin (- 1))
                (Fin 0) (Fin 0) (Fin (- (2000 / 9999))) (Fin 0)"
    and "pixelUnprojectionMatrix (example_view perspective_opts perspective_matrix) = Some
          (Mat4 (Fin (1 / (300 * f))) (Fin 0) (Fin 0) (Fin 0)
                (Fin 0) (Fin (- (1 / (300 * f)))) (Fin 0) (Fin 0)
                (Fin 0) (Fin 0) (Fin 0) (Fin (- (9999 / 2000)))
                (Fin (- (4 / (3 * f)))) (Fin (1 / f)) (Fin (- 1)) (Fin (10001 / 2000)))"
    by (rule perspective_viewport)
  then show ?thesis
    by (simp add: Viewport_new_perspective run_eval)
qed

text \<open>
  C9 as stated fails at its first half. With the identity as view matrix the camera is at
  the origin, so \<open>[0, 0, 0]\<close> is the eye point: the \<open>w\<close> component of its image under the
  pixel projection matrix is 0, the image cannot be normalised, and \<open>project\<close> returns no
  pixel (the transform gives \<open>null\<close>, whose destructuring is a type error).
\<close>

theorem perspective_origin_counterexample:
  "Viewport_new stub_ext perspective_opts =
     Inr (example_view perspective_opts perspective_matrix) \<and>
   snd (snd (snd (vec4_transformMat4 (Fin 0, Fin 0, Fin 0, Fin 1)
      (pixelProjectionMatrix (example_view perspective_opts perspective_matrix))))) = Fin 0 \<and>
   project (example_view perspective_opts perspective_matrix) [Fin 0, Fin 0, Fin 0] False =
     Inl TypeError"
proof -
  obtain f where "f \<noteq> 0"
    and "height (example_view perspective_opts perspective_matrix) = Fin 600"
    and "pixelProjectionMatrix (example_view perspective_opts perspective_matrix) =
           Mat4 (Fin (300 * f)) (Fin 0) (Fin 0) (Fin 0)
                (Fin 0) (Fin (- (f * 300))) (Fin 0) (Fin 0)
                (Fin (- 400)) (Fin (- 300)) (Fin (- (10001 / 9999))) (Fin (- 1))
                (Fin 0) (Fin 0) (Fin (- (2000 / 9999))) (Fin 0)"
    by (rule perspective_viewport)
  then show ?thesis
    by (simp add: Viewport_new_perspective run_eval)
qed

section \<open>The degenerate ray\<close>



section \<open>The round trip\<close>





end
